theory Spec2Isabelle
  imports Main "HOL-Library.Multiset"
begin

section \<open>Strings of the Python runtime\<close>

text \<open>
  A Python \<open>str\<close> is a sequence of Unicode code points and \<open>len\<close> counts code
  points, so a string is a list of code points here. \<open>lit\<close> turns an ASCII literal of
  the source into such a list.
\<close>

type_synonym pystr = "nat list"

definition lit :: "string \<Rightarrow> pystr" where
  "lit s = map of_char s"

text \<open>
  \<open>str.strip()\<close> without an argument removes leading and trailing whitespace, which for
  \<open>str\<close> is the set of code points for which \<open>str.isspace\<close> holds.
\<close>

definition isspace :: "nat \<Rightarrow> bool" where
  "isspace c \<longleftrightarrow>
     (9 \<le> c \<and> c \<le> 13) \<or> (28 \<le> c \<and> c \<le> 32) \<or> c = 133 \<or> c = 160 \<or> c = 5760 \<or>
     (8192 \<le> c \<and> c \<le> 8202) \<or> c = 8232 \<or> c = 8233 \<or> c = 8239 \<or> c = 8287 \<or> c = 12288"

definition strip :: "pystr \<Rightarrow> pystr" where
  "strip s = rev (dropWhile isspace (rev (dropWhile isspace s)))"

section \<open>Validation utilities\<close>

definition is_upper :: "nat \<Rightarrow> bool" where
  "is_upper c \<longleftrightarrow> 65 \<le> c \<and> c \<le> 90"

definition is_lower :: "nat \<Rightarrow> bool" where
  "is_lower c \<longleftrightarrow> 97 \<le> c \<and> c \<le> 122"

definition is_ascii_digit :: "nat \<Rightarrow> bool" where
  "is_ascii_digit c \<longleftrightarrow> 48 \<le> c \<and> c \<le> 57"

text \<open>The character class \<open>[a-zA-Z0-9_]\<close>.\<close>

definition is_word :: "nat \<Rightarrow> bool" where
  "is_word c \<longleftrightarrow> is_lower c \<or> is_upper c \<or> is_ascii_digit c \<or> c = 95"

text \<open>
  \<open>re.search(r'[A-Z]', s)\<close> succeeds when some code point of \<open>s\<close> is in the class.
\<close>

definition re_search_class :: "(nat \<Rightarrow> bool) \<Rightarrow> pystr \<Rightarrow> bool" where
  "re_search_class cls s = list_ex cls s"

text \<open>
  \<open>validate_password\<close>. In a \<open>str\<close> pattern \<open>\d\<close> matches every Unicode decimal digit;
  that table belongs to the runtime, so the class is the parameter \<open>digit\<close>.
\<close>

definition validate_password :: "(nat \<Rightarrow> bool) \<Rightarrow> pystr \<Rightarrow> bool \<times> pystr" where
  "validate_password digit password =
     (if length password < 8 then
        (False, lit ''Password must be at least 8 characters long'')
      else if \<not> re_search_class is_upper password then
        (False, lit ''Password must contain at least one uppercase letter'')
      else if \<not> re_search_class is_lower password then
        (False, lit ''Password must contain at least one lowercase letter'')
      else if \<not> re_search_class digit password then
        (False, lit ''Password must contain at least one number'')
      else (True, lit ''Password is valid''))"

text \<open>
  \<open>re.match(r'^[a-zA-Z0-9_]+$', s)\<close>: the greedy class consumes the longest prefix of
  word characters; without \<open>re.MULTILINE\<close>, \<open>$\<close> matches at the end of the string and
  also just before a newline that is the last character. No word character is a
  newline, so backtracking into the prefix cannot help: the match succeeds when the
  prefix is not empty and what follows it is nothing, or one final newline.
\<close>

definition re_match_username :: "pystr \<Rightarrow> bool" where
  "re_match_username s =
     (let w = takeWhile is_word s; rest = dropWhile is_word s
      in w \<noteq> [] \<and> (rest = [] \<or> rest = [10]))"

definition validate_username :: "pystr \<Rightarrow> bool \<times> pystr" where
  "validate_username username =
     (if length username < 3 then
        (False, lit ''Username must be at least 3 characters long'')
      else if length username > 20 then
        (False, lit ''Username must be less than 20 characters'')
      else if \<not> re_match_username username then
        (False, lit ''Username can only contain letters, numbers, and underscores'')
      else (True, lit ''Username is valid''))"

section \<open>Data model\<close>

text \<open>
  The models \<open>User\<close> and \<open>Task\<close>. A \<open>DateTime\<close> is an integer count of microseconds.
  The fields carry a prefix because both models have an \<open>id\<close> and a \<open>created_at\<close>.
\<close>

record user =
  u_id :: nat
  u_username :: pystr
  u_password_hash :: pystr
  u_created_at :: int

record task =
  t_id :: nat
  t_title :: pystr
  t_description :: pystr
  t_completed :: bool
  t_created_at :: int
  t_updated_at :: int
  t_user_id :: nat

text \<open>The two tables, each a list of rows in insertion order.\<close>

record database =
  users :: "user list"
  tasks :: "task list"

text \<open>
  The Flask session holds the keys \<open>user_id\<close> and \<open>username\<close>; a key that is absent is
  \<open>None\<close>. Only \<open>login\<close> writes \<open>user_id\<close>, and what it writes is the id of a user
  row. The flashed messages, which Flask also keeps in the session, are the list
  \<open>o_flashed\<close> of an outcome.
\<close>

record session =
  s_user_id :: "nat option"
  s_username :: "pystr option"

definition session_clear :: "session" where
  "session_clear = \<lparr>s_user_id = None, s_username = None\<rparr>"

datatype http_method = GET | POST

record request =
  rq_method :: http_method
  rq_form :: "string \<rightharpoonup> pystr"
  rq_args :: "string \<rightharpoonup> pystr"

text \<open>\<open>request.form.get(key, '')\<close> and \<open>request.args.get(key, '')\<close>.\<close>

definition form_get :: "request \<Rightarrow> string \<Rightarrow> pystr" where
  "form_get req k = (case rq_form req k of None \<Rightarrow> [] | Some v \<Rightarrow> v)"


text \<open>
  What a request reads from outside the program: the clock (\<open>utcnow k\<close> is the value of
  the \<open>k\<close>-th call of \<open>datetime.utcnow\<close> in the request), whether the \<open>try\<close> block
  around \<open>db.session.commit()\<close> raises (for whatever reason: the disk, a lock, a value the
  driver cannot bind), the two functions of \<open>werkzeug.security\<close> (the salt of
  \<open>generate_password_hash\<close> is fixed within one request), and the class \<open>\d\<close> matches.
\<close>

record env =
  utcnow :: "nat \<Rightarrow> int"
  commit_fails :: bool
  generate_password_hash :: "pystr \<Rightarrow> pystr"
  check_password_hash :: "pystr \<Rightarrow> pystr \<Rightarrow> bool"
  re_digit :: "nat \<Rightarrow> bool"

datatype endpoint = EP_index | EP_login | EP_dashboard

datatype category = Error | Success

record dashboard_context =
  dc_user :: user
  dc_tasks :: "task list"
  dc_total_tasks :: nat
  dc_completed_tasks :: nat
  dc_incomplete_tasks :: int
  dc_search_query :: pystr

text \<open>
  A response is a redirect, a rendered template with what it is given, or the page of
  the 404 or the 500 handler.
\<close>

datatype response =
    Redirect endpoint
  | Render_index
  | Render_register
  | Render_login
  | Render_dashboard dashboard_context
  | Render_edit_task task
  | Render_404
  | Render_500

record outcome =
  o_resp :: response
  o_session :: session
  o_db :: database
  o_flashed :: "(pystr \<times> category) list"

definition reply :: "response \<Rightarrow> session \<Rightarrow> database \<Rightarrow> (pystr \<times> category) list \<Rightarrow> outcome" where
  "reply r s d f = \<lparr>o_resp = r, o_session = s, o_db = d, o_flashed = f\<rparr>"

section \<open>Queries and row operations\<close>

text \<open>\<open>User.query.filter_by(username=username).first()\<close>: the comparison is exact.\<close>

definition user_by_username :: "database \<Rightarrow> pystr \<Rightarrow> user option" where
  "user_by_username d name = find (\<lambda>u. u_username u = name) (users d)"

text \<open>
  \<open>User.query.get(id)\<close> and \<open>Task.query.get(id)\<close>. An id in a row is an SQLite
  \<open>INTEGER\<close>, hence below \<open>2 ^ 63\<close>; the driver refuses to bind a larger one
  (\<open>OverflowError\<close>), so a lookup of such an id does not return. No view catches the
  error: the request ends in the 500 handler.
\<close>

definition int_overflows :: "nat \<Rightarrow> bool" where
  "int_overflows i \<longleftrightarrow> 2 ^ 63 \<le> i"


definition task_get :: "database \<Rightarrow> nat \<Rightarrow> task option" where
  "task_get d i = find (\<lambda>t. t_id t = i) (tasks d)"

text \<open>
  What \<open>get_or_404\<close> ends in when it returns no row: the 404 page of
  \<open>not_found_error\<close>, or the 500 page when the id cannot be bound. The views look the
  row up first; a table holds no row whose id overflows.
\<close>

definition get_or_404_failure :: "nat \<Rightarrow> response" where
  "get_or_404_failure task_id = (if int_overflows task_id then Render_500 else Render_404)"

text \<open>
  The \<open>updated_at\<close> an \<open>UPDATE\<close> of a task stores. The column has
  \<open>onupdate=datetime.utcnow\<close>: the views assign the first clock reading, and when that
  equals the stored value the attribute has not changed, the statement leaves the
  column out and \<open>onupdate\<close> supplies a second reading. \<open>toggle_task\<close> always changes
  \<open>completed\<close>, so its \<open>UPDATE\<close> is always sent; \<open>edit_task\<close> sends none when title,
  description and timestamp are all what the row holds.
\<close>

definition toggled_updated_at :: "env \<Rightarrow> task \<Rightarrow> int" where
  "toggled_updated_at e t = (if utcnow e 0 = t_updated_at t then utcnow e 1 else utcnow e 0)"

definition edited_updated_at :: "env \<Rightarrow> task \<Rightarrow> pystr \<Rightarrow> pystr \<Rightarrow> int" where
  "edited_updated_at e t title description =
     (if utcnow e 0 = t_updated_at t \<and> (title \<noteq> t_title t \<or> description \<noteq> t_description t)
      then utcnow e 1 else utcnow e 0)"

text \<open>
  An integer primary key that the insert leaves out gets the largest key of the table
  plus one, and 1 in an empty table.
\<close>

definition next_id :: "nat list \<Rightarrow> nat" where
  "next_id ids = fold max ids 0 + 1"

definition insert_user :: "database \<Rightarrow> pystr \<Rightarrow> pystr \<Rightarrow> int \<Rightarrow> database" where
  "insert_user d name hash created =
     d\<lparr>users := users d @
        [\<lparr>u_id = next_id (map u_id (users d)), u_username = name,
          u_password_hash = hash, u_created_at = created\<rparr>]\<rparr>"

definition insert_task :: "database \<Rightarrow> pystr \<Rightarrow> pystr \<Rightarrow> nat \<Rightarrow> int \<Rightarrow> int \<Rightarrow> database" where
  "insert_task d title description owner created updated =
     d\<lparr>tasks := tasks d @
        [\<lparr>t_id = next_id (map t_id (tasks d)), t_title = title, t_description = description,
          t_completed = False, t_created_at = created, t_updated_at = updated,
          t_user_id = owner\<rparr>]\<rparr>"

text \<open>\<open>UPDATE task SET ... WHERE id = ?\<close> and \<open>DELETE FROM task WHERE id = ?\<close>.\<close>

definition update_task :: "database \<Rightarrow> nat \<Rightarrow> (task \<Rightarrow> task) \<Rightarrow> database" where
  "update_task d i f = d\<lparr>tasks := map (\<lambda>t. if t_id t = i then f t else t) (tasks d)\<rparr>"

definition remove_task :: "database \<Rightarrow> nat \<Rightarrow> database" where
  "remove_task d i = d\<lparr>tasks := filter (\<lambda>t. t_id t \<noteq> i) (tasks d)\<rparr>"

section \<open>Authentication\<close>

text \<open>
  The decorator \<open>login_required\<close>: without \<open>user_id\<close> in the session the view is not
  called.
\<close>

definition login_required :: "(session \<Rightarrow> database \<Rightarrow> outcome) \<Rightarrow> session \<Rightarrow> database \<Rightarrow> outcome" where
  "login_required f sess d =
     (if s_user_id sess = None then
        reply (Redirect EP_login) sess d [(lit ''Please log in to access this page.'', Error)]
      else f sess d)"

definition index :: "session \<Rightarrow> database \<Rightarrow> outcome" where
  "index sess d =
     (if s_user_id sess \<noteq> None then reply (Redirect EP_dashboard) sess d []
      else reply Render_index sess d [])"

definition register :: "env \<Rightarrow> request \<Rightarrow> session \<Rightarrow> database \<Rightarrow> outcome" where
  "register e req sess d =
     (if s_user_id sess \<noteq> None then reply (Redirect EP_dashboard) sess d []
      else if rq_method req = POST then
        (let username = strip (form_get req ''username'');
             password = form_get req ''password'';
             confirm_password = form_get req ''confirm_password''
         in
           if username = [] then
             reply Render_register sess d [(lit ''Username is required.'', Error)]
           else if password = [] then
             reply Render_register sess d [(lit ''Password is required.'', Error)]
           else if \<not> fst (validate_username username) then
             reply Render_register sess d [(snd (validate_username username), Error)]
           else if \<not> fst (validate_password (re_digit e) password) then
             reply Render_register sess d
               [(snd (validate_password (re_digit e) password), Error)]
           else if password \<noteq> confirm_password then
             reply Render_register sess d [(lit ''Passwords do not match.'', Error)]
           else if user_by_username d username \<noteq> None then
             reply Render_register sess d
               [(lit ''Username already exists. Please choose a different one.'', Error)]
           else if commit_fails e then
             reply Render_register sess d
               [(lit ''An error occurred during registration. Please try again.'', Error)]
           else
             reply (Redirect EP_login) sess
               (insert_user d username (generate_password_hash e password) (utcnow e 0))
               [(lit ''Registration successful! Please log in.'', Success)])
      else reply Render_register sess d [])"

text \<open>
  The lookup and the hash check of \<open>login\<close> (\<open>user and user.check_password(password)\<close>):
  the user when both succeed.
\<close>

definition authenticate :: "env \<Rightarrow> database \<Rightarrow> pystr \<Rightarrow> pystr \<Rightarrow> user option" where
  "authenticate e d username password =
     (case user_by_username d username of
        None \<Rightarrow> None
      | Some u \<Rightarrow> if check_password_hash e (u_password_hash u) password then Some u else None)"

definition login :: "env \<Rightarrow> request \<Rightarrow> session \<Rightarrow> database \<Rightarrow> outcome" where
  "login e req sess d =
     (if s_user_id sess \<noteq> None then reply (Redirect EP_dashboard) sess d []
      else if rq_method req = POST then
        (let username = strip (form_get req ''username'');
             password = form_get req ''password''
         in
           if username = [] \<or> password = [] then
             reply Render_login sess d [(lit ''Username and password are required.'', Error)]
           else
             (case authenticate e d username password of
                Some u \<Rightarrow>
                  reply (Redirect EP_dashboard)
                    (sess\<lparr>s_user_id := Some (u_id u), s_username := Some (u_username u)\<rparr>) d
                    [(lit ''Welcome back, '' @ u_username u @ lit ''!'', Success)]
              | None \<Rightarrow>
                  reply Render_login sess d [(lit ''Invalid username or password.'', Error)]))
      else reply Render_login sess d [])"

definition logout :: "session \<Rightarrow> database \<Rightarrow> outcome" where
  "logout = login_required (\<lambda>sess d.
     reply (Redirect EP_index) session_clear d
       [(lit ''You have been logged out successfully.'', Success)])"

section \<open>Dashboard\<close>













section \<open>Task routes\<close>

text \<open>
  Each route is the decorated view function of the source: routing has already matched
  the method and the task id, and the CSRF check of the extension has passed.
  \<open>get_or_404\<close> aborts on an unknown id and \<open>not_found_error\<close> renders the abort:
  \<open>Render_404\<close>; on an id that cannot be bound it ends in \<open>Render_500\<close>. Where a view
  reads \<open>session['user_id']\<close> outside a \<open>try\<close> and the
  key is absent, the \<open>KeyError\<close> ends in the 500 handler; behind \<open>login_required\<close>
  that branch is never taken. The branch \<open>commit_fails\<close> is the \<open>except\<close> of the
  view: the rollback leaves the store as it was.
\<close>

definition add_task_view :: "env \<Rightarrow> request \<Rightarrow> session \<Rightarrow> database \<Rightarrow> outcome" where
  "add_task_view e req sess d =
     (let title = strip (form_get req ''title'');
          description = strip (form_get req ''description'')
      in
        if title = [] then
          reply (Redirect EP_dashboard) sess d [(lit ''Task title is required.'', Error)]
        else if length title > 200 then
          reply (Redirect EP_dashboard) sess d
            [(lit ''Task title must be less than 200 characters.'', Error)]
        else if length description > 200 then
          reply (Redirect EP_dashboard) sess d
            [(lit ''Task description must be less than 200 characters.'', Error)]
        else
          (case s_user_id sess of
             None \<Rightarrow>
               reply (Redirect EP_dashboard) sess d
                 [(lit ''An error occurred while adding the task. Please try again.'', Error)]
           | Some uid \<Rightarrow>
               if commit_fails e then
                 reply (Redirect EP_dashboard) sess d
                   [(lit ''An error occurred while adding the task. Please try again.'', Error)]
               else
                 reply (Redirect EP_dashboard) sess
                   (insert_task d title description uid (utcnow e 0) (utcnow e 1))
                   [(lit ''Task added successfully!'', Success)]))"

definition add_task :: "env \<Rightarrow> request \<Rightarrow> session \<Rightarrow> database \<Rightarrow> outcome" where
  "add_task e req = login_required (add_task_view e req)"

definition edit_task_view :: "env \<Rightarrow> nat \<Rightarrow> request \<Rightarrow> session \<Rightarrow> database \<Rightarrow> outcome" where
  "edit_task_view e task_id req sess d =
     (case task_get d task_id of
        None \<Rightarrow> reply (get_or_404_failure task_id) sess d []
      | Some task \<Rightarrow>
          (case s_user_id sess of
             None \<Rightarrow> reply Render_500 sess d []
           | Some uid \<Rightarrow>
               if t_user_id task \<noteq> uid then
                 reply (Redirect EP_dashboard) sess d
                   [(lit ''You can only edit your own tasks.'', Error)]
               else if rq_method req = POST then
                 (let title = strip (form_get req ''title'');
                      description = strip (form_get req ''description'')
                  in
                    if title = [] then
                      reply (Render_edit_task task) sess d
                        [(lit ''Task title is required.'', Error)]
                    else if length title > 200 then
                      reply (Render_edit_task task) sess d
                        [(lit ''Task title must be less than 200 characters.'', Error)]
                    else if length description > 200 then
                      reply (Render_edit_task task) sess d
                        [(lit ''Task description must be less than 200 characters.'', Error)]
                    else if commit_fails e then
                      reply (Render_edit_task task) sess d
                        [(lit ''An error occurred while updating the task. Please try again.'',
                          Error)]
                    else
                      reply (Redirect EP_dashboard) sess
                        (update_task d task_id
                           (\<lambda>t. t\<lparr>t_title := title, t_description := description,
                                  t_updated_at := edited_updated_at e t title description\<rparr>))
                        [(lit ''Task updated successfully!'', Success)])
               else reply (Render_edit_task task) sess d []))"

definition edit_task :: "env \<Rightarrow> nat \<Rightarrow> request \<Rightarrow> session \<Rightarrow> database \<Rightarrow> outcome" where
  "edit_task e task_id req = login_required (edit_task_view e task_id req)"

definition toggle_task_view :: "env \<Rightarrow> nat \<Rightarrow> session \<Rightarrow> database \<Rightarrow> outcome" where
  "toggle_task_view e task_id sess d =
     (case task_get d task_id of
        None \<Rightarrow> reply (get_or_404_failure task_id) sess d []
      | Some task \<Rightarrow>
          (case s_user_id sess of
             None \<Rightarrow> reply Render_500 sess d []
           | Some uid \<Rightarrow>
               if t_user_id task \<noteq> uid then
                 reply (Redirect EP_dashboard) sess d
                   [(lit ''You can only modify your own tasks.'', Error)]
               else if commit_fails e then
                 reply (Redirect EP_dashboard) sess d
                   [(lit ''An error occurred while updating the task. Please try again.'', Error)]
               else
                 (let status = (if \<not> t_completed task then lit ''completed''
                                else lit ''marked as incomplete'')
                  in reply (Redirect EP_dashboard) sess
                       (update_task d task_id
                          (\<lambda>t. t\<lparr>t_completed := \<not> t_completed t,
                                 t_updated_at := toggled_updated_at e t\<rparr>))
                       [(lit ''Task '' @ [34] @ t_title task @ [34, 32] @ status @ lit ''!'',
                         Success)])))"

definition toggle_task :: "env \<Rightarrow> nat \<Rightarrow> session \<Rightarrow> database \<Rightarrow> outcome" where
  "toggle_task e task_id = login_required (toggle_task_view e task_id)"

definition delete_task_view :: "env \<Rightarrow> nat \<Rightarrow> session \<Rightarrow> database \<Rightarrow> outcome" where
  "delete_task_view e task_id sess d =
     (case task_get d task_id of
        None \<Rightarrow> reply (get_or_404_failure task_id) sess d []
      | Some task \<Rightarrow>
          (case s_user_id sess of
             None \<Rightarrow> reply Render_500 sess d []
           | Some uid \<Rightarrow>
               if t_user_id task \<noteq> uid then
                 reply (Redirect EP_dashboard) sess d
                   [(lit ''You can only delete your own tasks.'', Error)]
               else if commit_fails e then
                 reply (Redirect EP_dashboard) sess d
                   [(lit ''An error occurred while deleting the task. Please try again.'', Error)]
               else
                 reply (Redirect EP_dashboard) sess (remove_task d task_id)
                   [(lit ''Task '' @ [34] @ t_title task @ [34] @ lit '' deleted successfully!'',
                     Success)]))"

definition delete_task :: "env \<Rightarrow> nat \<Rightarrow> session \<Rightarrow> database \<Rightarrow> outcome" where
  "delete_task e task_id = login_required (delete_task_view e task_id)"

section \<open>Substring search as the specification words it\<close>

text \<open>
  The specification's search: the title contains the query as a substring, compared
  without regard to case. \<open>is_substring\<close> is containment of one list in another;
  \<open>ascii_ci_contains\<close> compares after folding the ASCII letters.
\<close>

fun is_substring :: "'a list \<Rightarrow> 'a list \<Rightarrow> bool" where
  "is_substring q [] = (q = [])"
| "is_substring q (c # cs) = (take (length q) (c # cs) = q \<or> is_substring q cs)"


section \<open>Example data\<close>

text \<open>
  A small store for running the routes on concrete requests: two users with one task
  each in \<open>db0\<close>, a second task of the first user in \<open>db1\<close>, and the requests the
  examples send. The hash functions of \<open>env0\<close> are stand-ins (a hash is the password
  behind a prefix), its digit class is the ASCII digits, and its commits succeed.
\<close>

definition env0 :: env where
  "env0 = \<lparr>utcnow = (\<lambda>k. 1000 + int k), commit_fails = False,
            generate_password_hash = (\<lambda>p. lit ''h:'' @ p),
            check_password_hash = (\<lambda>h p. h = lit ''h:'' @ p),
            re_digit = is_ascii_digit\<rparr>"

definition alice :: user where
  "alice = \<lparr>u_id = 1, u_username = lit ''alice_1'', u_password_hash = lit ''h:Passw0rd!'',
             u_created_at = 10\<rparr>"

definition bob :: user where
  "bob = \<lparr>u_id = 2, u_username = lit ''bob'', u_password_hash = lit ''h:Secret123'',
           u_created_at = 20\<rparr>"

definition task1 :: task where
  "task1 = \<lparr>t_id = 1, t_title = lit ''Buy milk'', t_description = [], t_completed = False,
             t_created_at = 100, t_updated_at = 100, t_user_id = 1\<rparr>"

definition task2 :: task where
  "task2 = \<lparr>t_id = 2, t_title = lit ''Call mum'', t_description = lit ''on Sunday'',
             t_completed = True, t_created_at = 200, t_updated_at = 250, t_user_id = 2\<rparr>"

definition db0 :: database where
  "db0 = \<lparr>users = [alice, bob], tasks = [task1, task2]\<rparr>"

definition sess_anon :: session where
  "sess_anon = \<lparr>s_user_id = None, s_username = None\<rparr>"

definition sess_alice :: session where
  "sess_alice = \<lparr>s_user_id = Some 1, s_username = Some (lit ''alice_1'')\<rparr>"

definition req_get :: request where
  "req_get = \<lparr>rq_method = GET, rq_form = Map.empty, rq_args = Map.empty\<rparr>"

definition req_post :: "(string \<times> pystr) list \<Rightarrow> request" where
  "req_post kvs = \<lparr>rq_method = POST, rq_form = map_of kvs, rq_args = Map.empty\<rparr>"

definition req_search :: "pystr \<Rightarrow> request" where
  "req_search q = \<lparr>rq_method = GET, rq_form = Map.empty, rq_args = [''search'' \<mapsto> q]\<rparr>"

definition req_login :: "pystr \<Rightarrow> pystr \<Rightarrow> request" where
  "req_login name pw = req_post [(''username'', name), (''password'', pw)]"

definition req_register :: "pystr \<Rightarrow> pystr \<Rightarrow> pystr \<Rightarrow> request" where
  "req_register name pw confirm =
     req_post [(''username'', name), (''password'', pw), (''confirm_password'', confirm)]"

definition req_task :: "pystr \<Rightarrow> pystr \<Rightarrow> request" where
  "req_task title description = req_post [(''title'', title), (''description'', description)]"

definition title200 :: pystr where
  "title200 = replicate 200 97"

definition title201 :: pystr where
  "title201 = replicate 201 97"




section \<open>Names for what a login request submits\<close>

text \<open>
  The two values \<open>login\<close> reads from the form, and the condition under which it reaches
  the lookup: a POST with a username that is not empty after \<open>strip\<close> and a password
  that is not empty.
\<close>

definition login_username :: "request \<Rightarrow> pystr" where
  "login_username req = strip (form_get req ''username'')"

definition login_password :: "request \<Rightarrow> pystr" where
  "login_password req = form_get req ''password''"

definition credentials_posted :: "request \<Rightarrow> bool" where
  "credentials_posted req \<longleftrightarrow>
     rq_method req = POST \<and> login_username req \<noteq> [] \<and> login_password req \<noteq> []"

section \<open>Names for what a task request submits\<close>

text \<open>
  The two values \<open>add_task\<close> and \<open>edit_task\<close> validate and store are the form fields
  after \<open>strip\<close>. \<open>task_input_invalid\<close> is the rejection rule of the specification read
  on those values, \<open>validation_notice\<close> the three notices a rejection flashes, and
  \<open>strip_task_fields\<close> the request whose two fields are already stripped.
\<close>

definition task_title :: "request \<Rightarrow> pystr" where
  "task_title req = strip (form_get req ''title'')"

definition task_description :: "request \<Rightarrow> pystr" where
  "task_description req = strip (form_get req ''description'')"

definition task_input_invalid :: "request \<Rightarrow> bool" where
  "task_input_invalid req \<longleftrightarrow>
     task_title req = [] \<or> length (task_title req) > 200 \<or> length (task_description req) > 200"

definition validation_notice :: "(pystr \<times> category) list \<Rightarrow> bool" where
  "validation_notice f \<longleftrightarrow>
     f = [(lit ''Task title is required.'', Error)] \<or>
     f = [(lit ''Task title must be less than 200 characters.'', Error)] \<or>
     f = [(lit ''Task description must be less than 200 characters.'', Error)]"

definition strip_task_fields :: "request \<Rightarrow> request" where
  "strip_task_fields req =
     req\<lparr>rq_form := (rq_form req)
       (''title'' \<mapsto> strip (form_get req ''title''),
        ''description'' \<mapsto> strip (form_get req ''description''))\<rparr>"

section \<open>Names for stating the search\<close>


section \<open>Validation: what passes\<close>

lemma validate_password_passes:
  "fst (validate_password digit p) \<longleftrightarrow>
     8 \<le> length p \<and> list_ex is_upper p \<and> list_ex is_lower p \<and> list_ex digit p"
  by (simp add: validate_password_def re_search_class_def)

lemma re_match_username_iff:
  "re_match_username s \<longleftrightarrow>
     (s \<noteq> [] \<and> list_all is_word s) \<or> (\<exists>w. w \<noteq> [] \<and> list_all is_word w \<and> s = w @ [10])"
proof -
  have nl: "\<not> is_word 10"
    by (simp add: is_word_def is_lower_def is_upper_def is_ascii_digit_def)
  show ?thesis
  proof
    assume m: "re_match_username s"
    let ?w = "takeWhile is_word s" and ?r = "dropWhile is_word s"
    from m have w: "?w \<noteq> []" and r: "?r = [] \<or> ?r = [10]"
      by (simp_all add: re_match_username_def Let_def)
    have allw: "list_all is_word ?w"
      by (simp add: list_all_iff) (meson set_takeWhileD)
    have s: "s = ?w @ ?r" by simp
    from r show "(s \<noteq> [] \<and> list_all is_word s) \<or>
        (\<exists>w. w \<noteq> [] \<and> list_all is_word w \<and> s = w @ [10])"
    proof
      assume "?r = []"
      with s have "s = ?w" by simp
      with w allw show ?thesis by metis
    next
      assume "?r = [10]"
      with s have "s = ?w @ [10]" by simp
      with w allw show ?thesis by blast
    qed
  next
    assume "(s \<noteq> [] \<and> list_all is_word s) \<or>
        (\<exists>w. w \<noteq> [] \<and> list_all is_word w \<and> s = w @ [10])"
    then show "re_match_username s"
    proof
      assume a: "s \<noteq> [] \<and> list_all is_word s"
      then have tw: "takeWhile is_word s = s" and dw: "dropWhile is_word s = []"
        by (simp_all add: list_all_iff)
      from a have "s \<noteq> []" by simp
      then show ?thesis
        unfolding re_match_username_def Let_def tw dw by simp
    next
      assume "\<exists>w. w \<noteq> [] \<and> list_all is_word w \<and> s = w @ [10]"
      then obtain w where w: "w \<noteq> []" "list_all is_word w" "s = w @ [10]" by blast
      from w(2) have "\<forall>x\<in>set w. is_word x" by (simp add: list_all_iff)
      then have "takeWhile is_word s = w" "dropWhile is_word s = [10]"
        using nl w(3) by simp_all
      with w(1) show ?thesis by (simp add: re_match_username_def)
    qed
  qed
qed

text \<open>
  C8. A username passes exactly when it has 3 to 20 characters, all of them letters,
  digits or underscores. \<open>validate_username\<close> breaks this at \<open>"abc\n"\<close>: four
  characters, the last one a newline, and the verdict is a pass.
\<close>

theorem validate_username_trailing_newline:
  "validate_username (lit ''abc'' @ [10]) = (True, lit ''Username is valid'')
   \<and> \<not> list_all is_word (lit ''abc'' @ [10])"
  by (simp add: validate_username_def re_match_username_def lit_def is_word_def
      is_lower_def is_upper_def is_ascii_digit_def)

section \<open>Helper facts\<close>

lemmas example_defs =
  env0_def alice_def bob_def task1_def task2_def db0_def sess_anon_def sess_alice_def
  req_get_def req_post_def req_search_def

lemma task_get_update:
  "task_get d i = Some t \<Longrightarrow> t_id (f t) = i \<Longrightarrow> task_get (update_task d i f) i = Some (f t)"
  unfolding task_get_def update_task_def
  by (induction "tasks d" arbitrary: d) (auto simp: find_Some_iff split: if_splits)

lemma strip_idem: "strip (strip s) = strip s"
proof -
  let ?a = "dropWhile isspace s"
  let ?b = "dropWhile isspace (rev ?a)"
  have "dropWhile isspace (rev ?b) = rev ?b"
  proof (cases "?b = []")
    case True
    show ?thesis unfolding True by simp
  next
    case False
    then have ne: "?a \<noteq> []" by (metis dropWhile.simps(1) rev.simps(1))
    then have h: "\<not> isspace (hd ?a)" by (rule hd_dropWhile)
    have "hd ?a \<in> set (rev ?a)" using ne by simp
    then have "last ?b = last (rev ?a)" using h by (rule dropWhile_last)
    then have "hd (rev ?b) = hd ?a" using False ne by (simp add: hd_rev last_rev)
    with h False show ?thesis by (simp add: dropWhile_eq_self_iff)
  qed
  then show ?thesis by (simp add: strip_def)
qed

lemma strip_all_space: "list_all isspace s \<Longrightarrow> strip s = []"
proof -
  assume "list_all isspace s"
  then have dw: "dropWhile isspace s = []" by (simp add: list_all_iff)
  show ?thesis unfolding strip_def dw by simp
qed

section \<open>Ownership\<close>

text \<open>
  C1. In a session of user \<open>u\<close>, a request to \<open>edit_task\<close>, \<open>toggle_task\<close> or
  \<open>delete_task\<close> that names a task of another owner is answered by a redirect to the
  dashboard with one notice of category error, and the store, hence every field of
  the task's row, is what it was.
\<close>

theorem foreign_task_refused:
  assumes "s_user_id sess = Some u" and "task_get d tid = Some t" and "t_user_id t \<noteq> u"
  shows "edit_task e tid req sess d =
           reply (Redirect EP_dashboard) sess d [(lit ''You can only edit your own tasks.'', Error)]
       \<and> toggle_task e tid sess d =
           reply (Redirect EP_dashboard) sess d [(lit ''You can only modify your own tasks.'', Error)]
       \<and> delete_task e tid sess d =
           reply (Redirect EP_dashboard) sess d [(lit ''You can only delete your own tasks.'', Error)]
       \<and> o_db (edit_task e tid req sess d) = d
       \<and> o_db (toggle_task e tid sess d) = d
       \<and> o_db (delete_task e tid sess d) = d"
  using assms
  by (simp add: edit_task_def toggle_task_def delete_task_def login_required_def
      edit_task_view_def toggle_task_view_def delete_task_view_def reply_def)

theorem foreign_task_refused_witness:
  "s_user_id sess_alice = Some 1 \<and> task_get db0 2 = Some task2 \<and> t_user_id task2 \<noteq> 1
   \<and> o_resp (edit_task env0 2 req_get sess_alice db0) = Redirect EP_dashboard
   \<and> o_resp (toggle_task env0 2 sess_alice db0) = Redirect EP_dashboard
   \<and> o_resp (delete_task env0 2 sess_alice db0) = Redirect EP_dashboard
   \<and> task_get (o_db (edit_task env0 2 req_get sess_alice db0)) 2 = Some task2
   \<and> task_get (o_db (toggle_task env0 2 sess_alice db0)) 2 = Some task2
   \<and> task_get (o_db (delete_task env0 2 sess_alice db0)) 2 = Some task2"
proof -
  have h: "s_user_id sess_alice = Some 1" "task_get db0 2 = Some task2" "t_user_id task2 \<noteq> 1"
    by (simp_all add: example_defs task_get_def)
  from foreign_task_refused [OF h, of env0 req_get] h show ?thesis
    by (simp add: reply_def)
qed

section \<open>Unknown task ids\<close>

text \<open>
  C2, as the code has it. The three routes do not answer an unknown task id and another
  user's task alike: for an id below \<open>2 ^ 63\<close> that no row has, \<open>get_or_404\<close> ends in
  the 404 page with no notice, while another user's task ends in a redirect to the
  dashboard with a notice. An unknown id of \<open>2 ^ 63\<close> or more ends in the 500 page.
  All three leave the store as it was.
\<close>

theorem missing_and_foreign_task_differ:
  assumes "s_user_id sess = Some u"
    and "task_get d missing = None" and "missing < 2 ^ 63"
    and "task_get d other = Some t" and "t_user_id t \<noteq> u"
  shows "edit_task e missing req sess d = reply Render_404 sess d []
       \<and> toggle_task e missing sess d = reply Render_404 sess d []
       \<and> delete_task e missing sess d = reply Render_404 sess d []
       \<and> o_resp (edit_task e other req sess d) = Redirect EP_dashboard
       \<and> o_resp (toggle_task e other sess d) = Redirect EP_dashboard
       \<and> o_resp (delete_task e other sess d) = Redirect EP_dashboard
       \<and> o_flashed (edit_task e other req sess d) \<noteq> []
       \<and> o_flashed (toggle_task e other sess d) \<noteq> []
       \<and> o_flashed (delete_task e other sess d) \<noteq> []
       \<and> o_db (edit_task e other req sess d) = d
       \<and> o_db (toggle_task e other sess d) = d
       \<and> o_db (delete_task e other sess d) = d
       \<and> (task_get d huge = None \<and> 2 ^ 63 \<le> huge \<longrightarrow>
            edit_task e huge req sess d = reply Render_500 sess d []
          \<and> toggle_task e huge sess d = reply Render_500 sess d []
          \<and> delete_task e huge sess d = reply Render_500 sess d [])"
proof -
  have m: "get_or_404_failure missing = Render_404"
    using assms(3) by (simp add: get_or_404_failure_def int_overflows_def)
  have h: "get_or_404_failure huge = Render_500" if "2 ^ 63 \<le> huge"
    using that by (simp add: get_or_404_failure_def int_overflows_def)
  have known: "o_resp (edit_task e other req sess d) = Redirect EP_dashboard
      \<and> o_resp (toggle_task e other sess d) = Redirect EP_dashboard
      \<and> o_resp (delete_task e other sess d) = Redirect EP_dashboard
      \<and> o_flashed (edit_task e other req sess d) \<noteq> []
      \<and> o_flashed (toggle_task e other sess d) \<noteq> []
      \<and> o_flashed (delete_task e other sess d) \<noteq> []
      \<and> o_db (edit_task e other req sess d) = d
      \<and> o_db (toggle_task e other sess d) = d
      \<and> o_db (delete_task e other sess d) = d"
    using assms(1,4,5)
    by (simp add: edit_task_def toggle_task_def delete_task_def login_required_def
        edit_task_view_def toggle_task_view_def delete_task_view_def reply_def)
  have unknown: "edit_task e i req sess d = reply (get_or_404_failure i) sess d []
      \<and> toggle_task e i sess d = reply (get_or_404_failure i) sess d []
      \<and> delete_task e i sess d = reply (get_or_404_failure i) sess d []"
    if "task_get d i = None" for i
    using that assms(1)
    by (simp add: edit_task_def toggle_task_def delete_task_def login_required_def
        edit_task_view_def toggle_task_view_def delete_task_view_def)
  from unknown [OF assms(2)] unknown [of huge] m h known show ?thesis by simp
qed

theorem missing_and_foreign_task_differ_witness:
  "s_user_id sess_alice = Some 1 \<and> task_get db0 3 = None \<and> (3::nat) < 2 ^ 63
   \<and> task_get db0 2 = Some task2 \<and> t_user_id task2 \<noteq> 1
   \<and> task_get db0 (2 ^ 63) = None
   \<and> o_resp (toggle_task env0 3 sess_alice db0) = Render_404
   \<and> o_flashed (toggle_task env0 3 sess_alice db0) = []
   \<and> o_resp (toggle_task env0 2 sess_alice db0) = Redirect EP_dashboard
   \<and> o_flashed (toggle_task env0 2 sess_alice db0) \<noteq> []
   \<and> o_resp (toggle_task env0 (2 ^ 63) sess_alice db0) = Render_500"
proof -
  have h: "s_user_id sess_alice = Some 1" "task_get db0 3 = None" "(3::nat) < 2 ^ 63"
    "task_get db0 2 = Some task2" "t_user_id task2 \<noteq> 1"
    by (simp_all add: example_defs task_get_def)
  have g: "task_get db0 (2 ^ 63) = None"
    by (simp add: example_defs task_get_def)
  from missing_and_foreign_task_differ [OF h, of env0 req_get "2 ^ 63"] h g show ?thesis
    by (simp add: reply_def)
qed

text \<open>
  C2 as stated fails: for Alice, task 3 does not exist and task 2 is Bob's, and each
  route answers the two requests differently.
\<close>

theorem missing_vs_foreign_task_counterexample:
  "task_get db0 3 = None \<and> task_get db0 2 = Some task2 \<and> t_user_id task2 = 2
   \<and> s_user_id sess_alice = Some 1
   \<and> edit_task env0 3 req_get sess_alice db0 \<noteq> edit_task env0 2 req_get sess_alice db0
   \<and> toggle_task env0 3 sess_alice db0 \<noteq> toggle_task env0 2 sess_alice db0
   \<and> delete_task env0 3 sess_alice db0 \<noteq> delete_task env0 2 sess_alice db0
   \<and> o_resp (toggle_task env0 3 sess_alice db0) = Render_404
   \<and> o_resp (toggle_task env0 2 sess_alice db0) = Redirect EP_dashboard"
  by (simp add: example_defs task_get_def edit_task_def toggle_task_def delete_task_def
      login_required_def edit_task_view_def toggle_task_view_def delete_task_view_def reply_def
      get_or_404_failure_def int_overflows_def)

section \<open>Toggle\<close>

text \<open>
  C4. For a task of the requester and a commit that succeeds, one \<open>toggle_task\<close>
  leaves the row with the completed flag negated and the updated timestamp set to a
  reading of the request's clock: the first, or the second when the first equals the
  stored timestamp. A second \<open>toggle_task\<close> brings the completed flag back to what it
  was, the row then differing from the original in the updated timestamp only.
\<close>

theorem toggle_flips_and_refreshes:
  assumes "s_user_id sess = Some u" and "task_get d tid = Some t" and "t_user_id t = u"
    and "\<not> commit_fails e" and "\<not> commit_fails e'"
  shows "task_get (o_db (toggle_task e tid sess d)) tid =
           Some (t\<lparr>t_completed := \<not> t_completed t,
                  t_updated_at :=
                    (if utcnow e 0 = t_updated_at t then utcnow e 1 else utcnow e 0)\<rparr>)
       \<and> task_get (o_db (toggle_task e' tid sess (o_db (toggle_task e tid sess d)))) tid =
           Some (t\<lparr>t_updated_at :=
                    (if utcnow e' 0 = (if utcnow e 0 = t_updated_at t then utcnow e 1 else utcnow e 0)
                     then utcnow e' 1 else utcnow e' 0)\<rparr>)"
proof -
  let ?f = "\<lambda>e t. t\<lparr>t_completed := \<not> t_completed t, t_updated_at := toggled_updated_at e t\<rparr>"
  from assms(2) have tid: "t_id t = tid"
    by (auto simp: task_get_def find_Some_iff)
  have one: "o_db (toggle_task e tid sess d') = update_task d' tid (?f e)"
    if "task_get d' tid = Some t'" "t_user_id t' = u" "\<not> commit_fails e" for e d' t'
    using that assms(1)
    by (simp add: toggle_task_def login_required_def toggle_task_view_def Let_def reply_def)
  have g1: "task_get (update_task d tid (?f e)) tid = Some (?f e t)"
    using task_get_update [OF assms(2), where f = "?f e"] tid by simp
  have g2: "task_get (update_task (update_task d tid (?f e)) tid (?f e')) tid = Some (?f e' (?f e t))"
    using task_get_update [OF g1, where f = "?f e'"] tid by simp
  have o1: "o_db (toggle_task e tid sess d) = update_task d tid (?f e)"
    using one [OF assms(2,3,4)] .
  have o2: "o_db (toggle_task e' tid sess (update_task d tid (?f e))) =
      update_task (update_task d tid (?f e)) tid (?f e')"
    using one [OF g1 _ assms(5)] assms(3) by simp
  show ?thesis
    unfolding o1 o2 g1 g2 by (simp add: toggled_updated_at_def)
qed

theorem toggle_flips_and_refreshes_witness:
  "s_user_id sess_alice = Some 1 \<and> task_get db0 1 = Some task1 \<and> t_user_id task1 = 1
   \<and> \<not> commit_fails env0
   \<and> t_updated_at task1 = 100 \<and> utcnow env0 0 = 1000 \<and> utcnow env0 1 = 1001
   \<and> task_get (o_db (toggle_task env0 1 sess_alice db0)) 1 =
        Some (task1\<lparr>t_completed := True, t_updated_at := 1000\<rparr>)
   \<and> task_get (o_db (toggle_task env0 1 sess_alice (o_db (toggle_task env0 1 sess_alice db0)))) 1 =
        Some (task1\<lparr>t_updated_at := 1001\<rparr>)"
proof -
  have h: "s_user_id sess_alice = Some 1" "task_get db0 1 = Some task1" "t_user_id task1 = 1"
    "\<not> commit_fails env0" "\<not> commit_fails env0"
    by (simp_all add: example_defs task_get_def)
  have c: "t_updated_at task1 = 100" "utcnow env0 0 = 1000" "utcnow env0 1 = 1001"
    "t_completed task1 = False"
    by (simp_all add: example_defs)
  from toggle_flips_and_refreshes [OF h] h c show ?thesis
    by simp
qed

section \<open>Login\<close>

lemma find_unique_key:
  "distinct (map f xs) \<Longrightarrow> find (\<lambda>x. f x = k) xs = Some u \<longleftrightarrow> u \<in> set xs \<and> f u = k"
  by (induction xs) (auto simp: image_iff)

lemma login_posted:
  assumes "s_user_id sess = None" and "credentials_posted req"
  shows "login e req sess d =
     (case authenticate e d (login_username req) (login_password req) of
        Some u \<Rightarrow>
          reply (Redirect EP_dashboard)
            (sess\<lparr>s_user_id := Some (u_id u), s_username := Some (u_username u)\<rparr>) d
            [(lit ''Welcome back, '' @ u_username u @ lit ''!'', Success)]
      | None \<Rightarrow> reply Render_login sess d [(lit ''Invalid username or password.'', Error)])"
  using assms
  by (simp add: login_def credentials_posted_def login_username_def login_password_def Let_def)

text \<open>
  C5. With usernames unique in the table, \<open>authenticate\<close> returns a user exactly when
  that user is in the table, has the given username, and the password checks against
  that user's stored hash. In \<open>login\<close>, a request with a known username and a wrong
  password and a request with an unknown username get the same outcome: the login page
  with the one notice \<open>Invalid username or password.\<close>, session and store untouched.
  The session receives a user id exactly when \<open>authenticate\<close> returns a user.
\<close>

theorem authenticate_iff_and_uniform_failure:
  assumes uniq: "distinct (map u_username (users d))"
  shows "(authenticate e d name pw = Some u \<longleftrightarrow>
            u \<in> set (users d) \<and> u_username u = name \<and>
            check_password_hash e (u_password_hash u) pw)
       \<and> (s_user_id sess = None \<and> credentials_posted req1 \<and> credentials_posted req2
            \<and> user_by_username d (login_username req1) = Some v
            \<and> \<not> check_password_hash e (u_password_hash v) (login_password req1)
            \<and> user_by_username d (login_username req2) = None
          \<longrightarrow> login e req1 sess d = reply Render_login sess d
                    [(lit ''Invalid username or password.'', Error)]
              \<and> login e req2 sess d = login e req1 sess d)
       \<and> (s_user_id sess = None \<and> credentials_posted req1
          \<longrightarrow> s_user_id (o_session (login e req1 sess d)) =
                map_option u_id (authenticate e d (login_username req1) (login_password req1)))"
proof (intro conjI impI)
  show "authenticate e d name pw = Some u \<longleftrightarrow>
      u \<in> set (users d) \<and> u_username u = name \<and> check_password_hash e (u_password_hash u) pw"
  proof -
    have k: "user_by_username d name = Some u \<longleftrightarrow> u \<in> set (users d) \<and> u_username u = name"
      using find_unique_key [OF uniq, of name u] by (simp add: user_by_username_def)
    show ?thesis
    proof
      assume "authenticate e d name pw = Some u"
      then have "user_by_username d name = Some u"
        and "check_password_hash e (u_password_hash u) pw"
        by (auto simp: authenticate_def split: option.splits if_splits)
      with k show "u \<in> set (users d) \<and> u_username u = name \<and>
          check_password_hash e (u_password_hash u) pw"
        by simp
    next
      assume r: "u \<in> set (users d) \<and> u_username u = name \<and>
          check_password_hash e (u_password_hash u) pw"
      with k have "user_by_username d name = Some u" by simp
      with r show "authenticate e d name pw = Some u" by (simp add: authenticate_def)
    qed
  qed
next
  assume a: "s_user_id sess = None \<and> credentials_posted req1 \<and> credentials_posted req2
            \<and> user_by_username d (login_username req1) = Some v
            \<and> \<not> check_password_hash e (u_password_hash v) (login_password req1)
            \<and> user_by_username d (login_username req2) = None"
  then have f1: "authenticate e d (login_username req1) (login_password req1) = None"
    and f2: "authenticate e d (login_username req2) (login_password req2) = None"
    by (simp_all add: authenticate_def)
  from a show l1: "login e req1 sess d = reply Render_login sess d
      [(lit ''Invalid username or password.'', Error)]"
    by (simp add: login_posted f1)
  from a show "login e req2 sess d = login e req1 sess d"
    by (simp add: login_posted f1 f2)
next
  assume "s_user_id sess = None \<and> credentials_posted req1"
  then show "s_user_id (o_session (login e req1 sess d)) =
      map_option u_id (authenticate e d (login_username req1) (login_password req1))"
    by (simp add: login_posted reply_def split: option.splits)
qed

theorem authenticate_iff_and_uniform_failure_witness:
  "distinct (map u_username (users db0))
   \<and> authenticate env0 db0 (lit ''alice_1'') (lit ''Passw0rd!'') = Some alice
   \<and> alice \<in> set (users db0)
   \<and> s_user_id sess_anon = None
   \<and> credentials_posted (req_login (lit ''alice_1'') (lit ''wrong''))
   \<and> credentials_posted (req_login (lit ''carol'') (lit ''Passw0rd!''))
   \<and> user_by_username db0 (lit ''alice_1'') = Some alice
   \<and> \<not> check_password_hash env0 (u_password_hash alice) (lit ''wrong'')
   \<and> user_by_username db0 (lit ''carol'') = None
   \<and> login env0 (req_login (lit ''carol'') (lit ''Passw0rd!'')) sess_anon db0 =
       login env0 (req_login (lit ''alice_1'') (lit ''wrong'')) sess_anon db0
   \<and> s_user_id (o_session (login env0 (req_login (lit ''alice_1'') (lit ''Passw0rd!'')) sess_anon db0))
       = Some 1"
proof -
  have u: "distinct (map u_username (users db0))"
    by (simp add: example_defs lit_def)
  have s: "strip (lit ''alice_1'') = lit ''alice_1''" "strip (lit ''carol'') = lit ''carol''"
    by (simp_all add: strip_def lit_def isspace_def)
  have c: "s_user_id sess_anon = None"
    "credentials_posted (req_login (lit ''alice_1'') (lit ''wrong''))"
    "credentials_posted (req_login (lit ''carol'') (lit ''Passw0rd!''))"
    "credentials_posted (req_login (lit ''alice_1'') (lit ''Passw0rd!''))"
    "login_username (req_login (lit ''alice_1'') (lit ''wrong'')) = lit ''alice_1''"
    "login_password (req_login (lit ''alice_1'') (lit ''wrong'')) = lit ''wrong''"
    "login_username (req_login (lit ''carol'') (lit ''Passw0rd!'')) = lit ''carol''"
    "login_username (req_login (lit ''alice_1'') (lit ''Passw0rd!'')) = lit ''alice_1''"
    "login_password (req_login (lit ''alice_1'') (lit ''Passw0rd!'')) = lit ''Passw0rd!''"
    by (simp_all add: credentials_posted_def login_username_def login_password_def req_login_def
        req_post_def sess_anon_def form_get_def s) (simp_all add: lit_def)
  have q: "user_by_username db0 (lit ''alice_1'') = Some alice"
    "\<not> check_password_hash env0 (u_password_hash alice) (lit ''wrong'')"
    "user_by_username db0 (lit ''carol'') = None"
    by (simp_all add: user_by_username_def example_defs lit_def)
  have a: "authenticate env0 db0 (lit ''alice_1'') (lit ''Passw0rd!'') = Some alice"
    by (simp add: authenticate_def q) (simp add: example_defs lit_def)
  from authenticate_iff_and_uniform_failure [OF u, of env0 "lit ''alice_1''" "lit ''Passw0rd!''" alice
      sess_anon "req_login (lit ''alice_1'') (lit ''wrong'')" "req_login (lit ''carol'') (lit ''Passw0rd!'')" alice]
    authenticate_iff_and_uniform_failure [OF u, of env0 "lit ''alice_1''" "lit ''Passw0rd!''" alice
      sess_anon "req_login (lit ''alice_1'') (lit ''Passw0rd!'')" "req_login (lit ''carol'') (lit ''Passw0rd!'')" alice]
    u c q a
  show ?thesis by (simp add: alice_def)
qed

section \<open>Registration\<close>

lemma validate_username_nonempty: "fst (validate_username name) \<Longrightarrow> name \<noteq> []"
  by (auto simp: validate_username_def split: if_splits)

lemma validate_password_nonempty: "fst (validate_password dg pw) \<Longrightarrow> pw \<noteq> []"
  by (auto simp: validate_password_def split: if_splits)

lemma user_by_username_fresh:
  "user_by_username d name = None \<longleftrightarrow> (\<forall>u\<in>set (users d). u_username u \<noteq> name)"
  by (auto simp: user_by_username_def find_None_iff)

lemma user_by_username_inserted:
  "user_by_username (insert_user d name h c) name \<noteq> None"
  by (simp add: user_by_username_fresh insert_user_def)

text \<open>
  C6. A POST of an anonymous session whose username (after \<open>strip\<close>) and password pass
  the two validators, with the password confirmed, creates the user when no row has
  exactly that username and the commit succeeds. A second registration of the same
  username with a valid, confirmed password is answered with the notice
  \<open>Username already exists.\<close> and the store is what it was; indeed no later request with
  that username changes the store. Usernames are compared exactly, so a name that differs
  from an existing one only in letter case is new.
\<close>

theorem register_once:
  assumes anon: "s_user_id sess = None"
    and req1: "rq_method req = POST" "strip (form_get req ''username'') = name"
      "form_get req ''password'' = pw" "form_get req ''confirm_password'' = pw"
    and valid1: "fst (validate_username name)" "fst (validate_password (re_digit e) pw)"
    and fresh: "\<forall>u\<in>set (users d). u_username u \<noteq> name"
    and commit: "\<not> commit_fails e"
    and req2: "rq_method req2 = POST" "strip (form_get req2 ''username'') = name"
      "form_get req2 ''password'' = pw2" "form_get req2 ''confirm_password'' = pw2"
    and valid2: "fst (validate_password (re_digit e2) pw2)"
  shows "register e req sess d =
           reply (Redirect EP_login) sess
             (insert_user d name (generate_password_hash e pw) (utcnow e 0))
             [(lit ''Registration successful! Please log in.'', Success)]
       \<and> map u_username (users (o_db (register e req sess d))) =
           map u_username (users d) @ [name]
       \<and> register e2 req2 sess (o_db (register e req sess d)) =
           reply Render_register sess (o_db (register e req sess d))
             [(lit ''Username already exists. Please choose a different one.'', Error)]
       \<and> (strip (form_get req3 ''username'') = name \<longrightarrow>
            o_db (register e3 req3 sess (o_db (register e req sess d))) =
              o_db (register e req sess d))"
proof -
  let ?d1 = "insert_user d name (generate_password_hash e pw) (utcnow e 0)"
  have ne: "name \<noteq> []" "pw \<noteq> []" "pw2 \<noteq> []"
    using valid1 valid2 validate_username_nonempty validate_password_nonempty by blast+
  have none: "user_by_username d name = None"
    using fresh by (simp add: user_by_username_fresh)
  have first: "register e req sess d =
      reply (Redirect EP_login) sess ?d1 [(lit ''Registration successful! Please log in.'', Success)]"
    using anon req1 valid1 commit ne none by (simp add: register_def)
  have d1: "o_db (register e req sess d) = ?d1"
    by (simp add: first reply_def)
  have names: "map u_username (users ?d1) = map u_username (users d) @ [name]"
    by (simp add: insert_user_def)
  have second: "register e2 req2 sess ?d1 =
      reply Render_register sess ?d1
        [(lit ''Username already exists. Please choose a different one.'', Error)]"
    using anon req2 valid1(1) valid2 ne user_by_username_inserted [of d name]
    by (simp add: register_def)
  have third: "o_db (register e3 req3 sess ?d1) = ?d1"
    if "strip (form_get req3 ''username'') = name"
    using that user_by_username_inserted [of d name]
    by (simp add: register_def reply_def Let_def)
  show ?thesis
    unfolding d1 using first names second third by simp
qed

theorem register_once_witness:
  "s_user_id sess_anon = None
   \<and> fst (validate_username (lit ''Alice_1''))
   \<and> fst (validate_password (re_digit env0) (lit ''Passw0rd!''))
   \<and> fst (validate_password (re_digit env0) (lit ''Other1234''))
   \<and> map u_username (users db0) = [lit ''alice_1'', lit ''bob'']
   \<and> \<not> commit_fails env0
   \<and> register env0 (req_register (lit ''Alice_1'') (lit ''Passw0rd!'') (lit ''Passw0rd!''))
        sess_anon db0 =
       reply (Redirect EP_login) sess_anon
         (insert_user db0 (lit ''Alice_1'') (generate_password_hash env0 (lit ''Passw0rd!''))
            (utcnow env0 0))
         [(lit ''Registration successful! Please log in.'', Success)]
   \<and> map u_username (users (o_db (register env0
        (req_register (lit ''Alice_1'') (lit ''Passw0rd!'') (lit ''Passw0rd!'')) sess_anon db0))) =
        [lit ''alice_1'', lit ''bob'', lit ''Alice_1'']
   \<and> register env0 (req_register (lit ''Alice_1'') (lit ''Other1234'') (lit ''Other1234''))
        sess_anon
        (o_db (register env0 (req_register (lit ''Alice_1'') (lit ''Passw0rd!'') (lit ''Passw0rd!''))
           sess_anon db0)) =
       reply Render_register sess_anon
        (o_db (register env0 (req_register (lit ''Alice_1'') (lit ''Passw0rd!'') (lit ''Passw0rd!''))
           sess_anon db0))
        [(lit ''Username already exists. Please choose a different one.'', Error)]
   \<and> o_db (register env0 (req_register (lit ''Alice_1'') (lit ''weak'') (lit ''weak''))
        sess_anon
        (o_db (register env0 (req_register (lit ''Alice_1'') (lit ''Passw0rd!'') (lit ''Passw0rd!''))
           sess_anon db0))) =
       o_db (register env0 (req_register (lit ''Alice_1'') (lit ''Passw0rd!'') (lit ''Passw0rd!''))
           sess_anon db0)"
proof -
  let ?r1 = "req_register (lit ''Alice_1'') (lit ''Passw0rd!'') (lit ''Passw0rd!'')"
  let ?r3 = "req_register (lit ''Alice_1'') (lit ''weak'') (lit ''weak'')"
  let ?r2 = "req_register (lit ''Alice_1'') (lit ''Other1234'') (lit ''Other1234'')"
  have s: "strip (lit ''Alice_1'') = lit ''Alice_1''"
    by (simp add: strip_def lit_def isspace_def)
  have a: "s_user_id sess_anon = None" by (simp add: sess_anon_def)
  have r1: "rq_method ?r1 = POST" "strip (form_get ?r1 ''username'') = lit ''Alice_1''"
    "form_get ?r1 ''password'' = lit ''Passw0rd!''"
    "form_get ?r1 ''confirm_password'' = lit ''Passw0rd!''"
    by (simp_all add: req_register_def req_post_def form_get_def s)
  have r2: "rq_method ?r2 = POST" "strip (form_get ?r2 ''username'') = lit ''Alice_1''"
    "form_get ?r2 ''password'' = lit ''Other1234''"
    "form_get ?r2 ''confirm_password'' = lit ''Other1234''"
    by (simp_all add: req_register_def req_post_def form_get_def s)
  have v: "fst (validate_username (lit ''Alice_1''))"
    "fst (validate_password (re_digit env0) (lit ''Passw0rd!''))"
    "fst (validate_password (re_digit env0) (lit ''Other1234''))"
    by (simp_all add: validate_username_def re_match_username_def validate_password_def
        re_search_class_def env0_def lit_def is_word_def is_lower_def is_upper_def
        is_ascii_digit_def)
  have n: "map u_username (users db0) = [lit ''alice_1'', lit ''bob'']"
    by (simp add: example_defs)
  have f: "\<forall>u\<in>set (users db0). u_username u \<noteq> lit ''Alice_1''"
    by (simp add: example_defs lit_def)
  have c: "\<not> commit_fails env0" by (simp add: env0_def)
  have r3: "strip (form_get ?r3 ''username'') = lit ''Alice_1''"
    by (simp add: req_register_def req_post_def form_get_def s)
  note R = register_once [OF a r1 v(1,2) f c r2 v(3), where ?req3.0 = ?r3 and ?e3.0 = env0]
  have R2: "map u_username (users (o_db (register env0 ?r1 sess_anon db0))) =
      [lit ''alice_1'', lit ''bob'', lit ''Alice_1'']"
    by (simp only: R [THEN conjunct2, THEN conjunct1] n append.simps)
  from R R2 r3 a v n c show ?thesis by blast
qed

text \<open>
  C9. A \<open>register\<close> request that changes the user table leaves the session as it was,
  without a \<open>user_id\<close>, and answers with a redirect to the login page.
\<close>

theorem register_does_not_log_in:
  assumes "users (o_db (register e req sess d)) \<noteq> users d"
  shows "o_session (register e req sess d) = sess
       \<and> s_user_id (o_session (register e req sess d)) = None
       \<and> o_resp (register e req sess d) = Redirect EP_login"
  using assms
  by (simp add: register_def reply_def Let_def split: if_splits)

theorem register_does_not_log_in_witness:
  "users (o_db (register env0 (req_register (lit ''Alice_1'') (lit ''Passw0rd!'') (lit ''Passw0rd!''))
      sess_anon db0)) \<noteq> users db0
   \<and> o_session (register env0 (req_register (lit ''Alice_1'') (lit ''Passw0rd!'') (lit ''Passw0rd!''))
      sess_anon db0) = sess_anon
   \<and> o_resp (register env0 (req_register (lit ''Alice_1'') (lit ''Passw0rd!'') (lit ''Passw0rd!''))
      sess_anon db0) = Redirect EP_login"
proof -
  let ?r1 = "req_register (lit ''Alice_1'') (lit ''Passw0rd!'') (lit ''Passw0rd!'')"
  have s: "strip (lit ''Alice_1'') = lit ''Alice_1''"
    by (simp add: strip_def lit_def isspace_def)
  have v: "fst (validate_username (lit ''Alice_1''))"
    "fst (validate_password is_ascii_digit (lit ''Passw0rd!''))"
    by (simp_all add: validate_username_def re_match_username_def validate_password_def
        re_search_class_def lit_def is_word_def is_lower_def is_upper_def is_ascii_digit_def)
  have ne: "lit ''Alice_1'' \<noteq> []" "lit ''Passw0rd!'' \<noteq> []"
    by (simp_all add: lit_def)
  have f: "user_by_username db0 (lit ''Alice_1'') = None"
    by (simp add: user_by_username_def example_defs lit_def)
  have "register env0 ?r1 sess_anon db0 =
      reply (Redirect EP_login) sess_anon
        (insert_user db0 (lit ''Alice_1'') (lit ''h:'' @ lit ''Passw0rd!'') 1000)
        [(lit ''Registration successful! Please log in.'', Success)]"
    using v ne f
    by (simp add: register_def req_register_def req_post_def form_get_def s)
      (simp add: env0_def sess_anon_def)
  then have ch: "users (o_db (register env0 ?r1 sess_anon db0)) \<noteq> users db0"
    by (simp add: reply_def insert_user_def)
  from register_does_not_log_in [OF ch] ch show ?thesis by simp
qed

section \<open>Task input\<close>

lemma strip_unchanged:
  assumes "s \<noteq> []" and "\<not> isspace (hd s)" and "\<not> isspace (last s)"
  shows "strip s = s"
proof -
  have a: "dropWhile isspace s = s"
    using assms by (simp add: dropWhile_eq_self_iff)
  have b: "dropWhile isspace (rev s) = rev s"
    using assms by (simp add: dropWhile_eq_self_iff hd_rev)
  show ?thesis unfolding strip_def a b by simp
qed

lemma add_task_view_cases:
  "add_task_view e req sess d =
     (if task_title req = [] then
        reply (Redirect EP_dashboard) sess d [(lit ''Task title is required.'', Error)]
      else if length (task_title req) > 200 then
        reply (Redirect EP_dashboard) sess d
          [(lit ''Task title must be less than 200 characters.'', Error)]
      else if length (task_description req) > 200 then
        reply (Redirect EP_dashboard) sess d
          [(lit ''Task description must be less than 200 characters.'', Error)]
      else
        (case s_user_id sess of
           None \<Rightarrow>
             reply (Redirect EP_dashboard) sess d
               [(lit ''An error occurred while adding the task. Please try again.'', Error)]
         | Some uid \<Rightarrow>
             if commit_fails e then
               reply (Redirect EP_dashboard) sess d
                 [(lit ''An error occurred while adding the task. Please try again.'', Error)]
             else
               reply (Redirect EP_dashboard) sess
                 (insert_task d (task_title req) (task_description req) uid (utcnow e 0) (utcnow e 1))
                 [(lit ''Task added successfully!'', Success)]))"
  by (simp add: add_task_view_def task_title_def task_description_def Let_def
      split: option.splits)

lemma edit_task_owner_post:
  assumes "s_user_id sess = Some u" and "task_get d tid = Some t" and "t_user_id t = u"
    and "rq_method req = POST"
  shows "edit_task e tid req sess d =
     (if task_title req = [] then
        reply (Render_edit_task t) sess d [(lit ''Task title is required.'', Error)]
      else if length (task_title req) > 200 then
        reply (Render_edit_task t) sess d
          [(lit ''Task title must be less than 200 characters.'', Error)]
      else if length (task_description req) > 200 then
        reply (Render_edit_task t) sess d
          [(lit ''Task description must be less than 200 characters.'', Error)]
      else if commit_fails e then
        reply (Render_edit_task t) sess d
          [(lit ''An error occurred while updating the task. Please try again.'', Error)]
      else
        reply (Redirect EP_dashboard) sess
          (update_task d tid
             (\<lambda>t. t\<lparr>t_title := task_title req, t_description := task_description req,
                    t_updated_at :=
                      edited_updated_at e t (task_title req) (task_description req)\<rparr>))
          [(lit ''Task updated successfully!'', Success)])"
  using assms
  by (simp add: edit_task_def login_required_def edit_task_view_def task_title_def
      task_description_def Let_def)

lemma notices_distinct:
  "\<not> validation_notice [(lit ''An error occurred while adding the task. Please try again.'', Error)]"
  "\<not> validation_notice [(lit ''An error occurred while updating the task. Please try again.'', Error)]"
  "\<not> validation_notice [(m, Success)]"
  "validation_notice [(lit ''Task title is required.'', Error)]"
  "validation_notice [(lit ''Task title must be less than 200 characters.'', Error)]"
  "validation_notice [(lit ''Task description must be less than 200 characters.'', Error)]"
  by (simp_all add: validation_notice_def lit_def)

text \<open>
  C7. For an authenticated request, \<open>add_task\<close> flashes one of the three validation
  notices exactly when the title is empty, the title has more than 200 characters or
  the description has more than 200 characters (title and description as the view
  holds them, after \<open>strip\<close>), and then the store is what it was; with both of length
  200 and a commit that succeeds the task is inserted. The same holds for a POST to
  \<open>edit_task\<close> by the task's owner, where acceptance updates the row.
\<close>

theorem task_input_rejected_iff:
  assumes "s_user_id sess = Some u"
  shows "(validation_notice (o_flashed (add_task e req sess d)) \<longleftrightarrow> task_input_invalid req)
       \<and> (task_input_invalid req \<longrightarrow> o_db (add_task e req sess d) = d)
       \<and> (length (task_title req) = 200 \<and> length (task_description req) = 200
            \<and> \<not> commit_fails e \<longrightarrow>
          add_task e req sess d =
            reply (Redirect EP_dashboard) sess
              (insert_task d (task_title req) (task_description req) u (utcnow e 0) (utcnow e 1))
              [(lit ''Task added successfully!'', Success)])
       \<and> (task_get d tid = Some t \<and> t_user_id t = u \<and> rq_method req = POST \<longrightarrow>
            (validation_notice (o_flashed (edit_task e tid req sess d)) \<longleftrightarrow> task_input_invalid req)
          \<and> (task_input_invalid req \<longrightarrow> o_db (edit_task e tid req sess d) = d)
          \<and> (length (task_title req) = 200 \<and> length (task_description req) = 200
               \<and> \<not> commit_fails e \<longrightarrow>
             edit_task e tid req sess d =
               reply (Redirect EP_dashboard) sess
                 (update_task d tid
                    (\<lambda>t. t\<lparr>t_title := task_title req, t_description := task_description req,
                           t_updated_at :=
                      edited_updated_at e t (task_title req) (task_description req)\<rparr>))
                 [(lit ''Task updated successfully!'', Success)]))"
proof -
  have add: "add_task e req sess d = add_task_view e req sess d"
    using assms by (simp add: add_task_def login_required_def)
  have a1: "validation_notice (o_flashed (add_task e req sess d)) \<longleftrightarrow> task_input_invalid req"
    unfolding add add_task_view_cases task_input_invalid_def
    using assms by (simp add: reply_def notices_distinct)
  have a2: "task_input_invalid req \<longrightarrow> o_db (add_task e req sess d) = d"
    unfolding add add_task_view_cases task_input_invalid_def
    by (simp add: reply_def)
  have a3: "length (task_title req) = 200 \<and> length (task_description req) = 200
      \<and> \<not> commit_fails e \<longrightarrow>
    add_task e req sess d =
      reply (Redirect EP_dashboard) sess
        (insert_task d (task_title req) (task_description req) u (utcnow e 0) (utcnow e 1))
        [(lit ''Task added successfully!'', Success)]"
    unfolding add add_task_view_cases using assms by auto
  have ed: "(validation_notice (o_flashed (edit_task e tid req sess d)) \<longleftrightarrow> task_input_invalid req)
      \<and> (task_input_invalid req \<longrightarrow> o_db (edit_task e tid req sess d) = d)
      \<and> (length (task_title req) = 200 \<and> length (task_description req) = 200
           \<and> \<not> commit_fails e \<longrightarrow>
         edit_task e tid req sess d =
           reply (Redirect EP_dashboard) sess
             (update_task d tid
                (\<lambda>t. t\<lparr>t_title := task_title req, t_description := task_description req,
                       t_updated_at :=
                      edited_updated_at e t (task_title req) (task_description req)\<rparr>))
             [(lit ''Task updated successfully!'', Success)])"
    if "task_get d tid = Some t" "t_user_id t = u" "rq_method req = POST"
    unfolding edit_task_owner_post [OF assms that] task_input_invalid_def
    by (auto simp: reply_def notices_distinct)
  from a1 a2 a3 ed show ?thesis by blast
qed

lemma strip_title200: "strip title200 = title200" "strip title201 = title201"
  "strip (title200 @ [32, 32, 32]) = title200"
  by (simp_all add: strip_unchanged title200_def title201_def isspace_def strip_def)

theorem task_input_rejected_iff_witness:
  "s_user_id sess_alice = Some 1
   \<and> task_get db0 1 = Some task1 \<and> t_user_id task1 = 1
   \<and> rq_method (req_task title200 title200) = POST
   \<and> length (task_title (req_task title200 title200)) = 200
   \<and> length (task_description (req_task title200 title200)) = 200
   \<and> \<not> commit_fails env0
   \<and> o_flashed (add_task env0 (req_task title200 title200) sess_alice db0) =
        [(lit ''Task added successfully!'', Success)]
   \<and> o_flashed (edit_task env0 1 (req_task title200 title200) sess_alice db0) =
        [(lit ''Task updated successfully!'', Success)]
   \<and> task_input_invalid (req_task title201 [])
   \<and> validation_notice (o_flashed (add_task env0 (req_task title201 []) sess_alice db0))
   \<and> o_db (add_task env0 (req_task title201 []) sess_alice db0) = db0
   \<and> validation_notice (o_flashed (edit_task env0 1 (req_task title201 []) sess_alice db0))
   \<and> o_db (edit_task env0 1 (req_task title201 []) sess_alice db0) = db0"
proof -
  have h: "s_user_id sess_alice = Some 1" "task_get db0 1 = Some task1" "t_user_id task1 = 1"
    "\<not> commit_fails env0"
    by (simp_all add: example_defs task_get_def)
  have r: "rq_method (req_task title200 title200) = POST"
    "rq_method (req_task title201 []) = POST"
    "task_title (req_task title200 title200) = title200"
    "task_description (req_task title200 title200) = title200"
    "task_title (req_task title201 []) = title201"
    by (simp_all add: req_task_def req_post_def task_title_def task_description_def
        form_get_def strip_title200)
  have l: "length title200 = 200" "length title201 = 201"
    by (simp_all add: title200_def title201_def)
  have i: "task_input_invalid (req_task title201 [])"
    by (simp add: task_input_invalid_def r l)
  note A = task_input_rejected_iff [OF h(1), of env0 "req_task title200 title200" db0 1 task1]
  note B = task_input_rejected_iff [OF h(1), of env0 "req_task title201 []" db0 1 task1]
  from A B h r l i show ?thesis
    by (simp add: reply_def)
qed

text \<open>
  C10. \<open>add_task\<close> and \<open>edit_task\<close> answer a request as they answer the request with
  both fields stripped beforehand. A title of whitespace only is rejected with
  \<open>Task title is required.\<close>; when the stripped title is not empty and the stripped
  values are within 200 characters, whatever the raw lengths, the stripped values are
  what is stored.
\<close>

theorem task_fields_stripped:
  assumes "s_user_id sess = Some u"
  shows "add_task e req sess d = add_task e (strip_task_fields req) sess d
       \<and> edit_task e tid req sess d = edit_task e tid (strip_task_fields req) sess d
       \<and> (list_all isspace (form_get req ''title'') \<longrightarrow>
            add_task e req sess d =
              reply (Redirect EP_dashboard) sess d [(lit ''Task title is required.'', Error)])
       \<and> (strip (form_get req ''title'') \<noteq> [] \<and> length (strip (form_get req ''title'')) \<le> 200
            \<and> length (strip (form_get req ''description'')) \<le> 200 \<and> \<not> commit_fails e \<longrightarrow>
            o_db (add_task e req sess d) =
              insert_task d (strip (form_get req ''title'')) (strip (form_get req ''description''))
                u (utcnow e 0) (utcnow e 1))
       \<and> (task_get d tid = Some t \<and> t_user_id t = u \<and> rq_method req = POST \<longrightarrow>
            (list_all isspace (form_get req ''title'') \<longrightarrow>
               edit_task e tid req sess d =
                 reply (Render_edit_task t) sess d [(lit ''Task title is required.'', Error)])
          \<and> (strip (form_get req ''title'') \<noteq> [] \<and> length (strip (form_get req ''title'')) \<le> 200
               \<and> length (strip (form_get req ''description'')) \<le> 200 \<and> \<not> commit_fails e \<longrightarrow>
               o_db (edit_task e tid req sess d) =
                 update_task d tid
                   (\<lambda>t. t\<lparr>t_title := strip (form_get req ''title''),
                          t_description := strip (form_get req ''description''),
                          t_updated_at :=
                       edited_updated_at e t (strip (form_get req ''title''))
                         (strip (form_get req ''description''))\<rparr>)))"
proof -
  have f: "form_get (strip_task_fields req) ''title'' = strip (form_get req ''title'')"
    "form_get (strip_task_fields req) ''description'' = strip (form_get req ''description'')"
    "rq_method (strip_task_fields req) = rq_method req"
    by (simp_all add: strip_task_fields_def form_get_def)
  have c1: "add_task e req sess d = add_task e (strip_task_fields req) sess d"
    by (simp add: add_task_def login_required_def add_task_view_def f strip_idem Let_def
        split: option.splits)
  have c2: "edit_task e tid req sess d = edit_task e tid (strip_task_fields req) sess d"
    by (simp add: edit_task_def login_required_def edit_task_view_def f strip_idem Let_def
        split: option.splits)
  have add: "add_task e req sess d = add_task_view e req sess d"
    using assms by (simp add: add_task_def login_required_def)
  have c3: "list_all isspace (form_get req ''title'') \<longrightarrow>
      add_task e req sess d =
        reply (Redirect EP_dashboard) sess d [(lit ''Task title is required.'', Error)]"
    unfolding add add_task_view_cases by (simp add: task_title_def strip_all_space)
  have c4: "strip (form_get req ''title'') \<noteq> [] \<and> length (strip (form_get req ''title'')) \<le> 200
      \<and> length (strip (form_get req ''description'')) \<le> 200 \<and> \<not> commit_fails e \<longrightarrow>
      o_db (add_task e req sess d) =
        insert_task d (strip (form_get req ''title'')) (strip (form_get req ''description''))
          u (utcnow e 0) (utcnow e 1)"
    unfolding add add_task_view_cases using assms
    by (simp add: task_title_def task_description_def reply_def)
  have c5: "(list_all isspace (form_get req ''title'') \<longrightarrow>
        edit_task e tid req sess d =
          reply (Render_edit_task t) sess d [(lit ''Task title is required.'', Error)])
      \<and> (strip (form_get req ''title'') \<noteq> [] \<and> length (strip (form_get req ''title'')) \<le> 200
          \<and> length (strip (form_get req ''description'')) \<le> 200 \<and> \<not> commit_fails e \<longrightarrow>
          o_db (edit_task e tid req sess d) =
            update_task d tid
              (\<lambda>t. t\<lparr>t_title := strip (form_get req ''title''),
                     t_description := strip (form_get req ''description''),
                     t_updated_at :=
                       edited_updated_at e t (strip (form_get req ''title''))
                         (strip (form_get req ''description''))\<rparr>))"
    if "task_get d tid = Some t" "t_user_id t = u" "rq_method req = POST"
    unfolding edit_task_owner_post [OF assms that]
    by (simp add: task_title_def task_description_def reply_def strip_all_space)
  from c1 c2 c3 c4 c5 show ?thesis by blast
qed

theorem task_fields_stripped_witness:
  "s_user_id sess_alice = Some 1
   \<and> task_get db0 1 = Some task1 \<and> t_user_id task1 = 1 \<and> \<not> commit_fails env0
   \<and> list_all isspace [32, 9, 10]
   \<and> add_task env0 (req_task [32, 9, 10] []) sess_alice db0 =
        reply (Redirect EP_dashboard) sess_alice db0 [(lit ''Task title is required.'', Error)]
   \<and> edit_task env0 1 (req_task [32, 9, 10] []) sess_alice db0 =
        reply (Render_edit_task task1) sess_alice db0 [(lit ''Task title is required.'', Error)]
   \<and> length (title200 @ [32, 32, 32]) = 203
   \<and> o_db (add_task env0 (req_task (title200 @ [32, 32, 32]) ([32] @ lit ''eggs'' @ [10]))
          sess_alice db0) =
        insert_task db0 title200 (lit ''eggs'') 1 1000 1001
   \<and> tasks (o_db (edit_task env0 1 (req_task (title200 @ [32, 32, 32]) ([32] @ lit ''eggs'' @ [10]))
          sess_alice db0)) =
        [task1\<lparr>t_title := title200, t_description := lit ''eggs'', t_updated_at := 1000\<rparr>, task2]"
proof -
  let ?w = "req_task [32, 9, 10] []"
  let ?r = "req_task (title200 @ [32, 32, 32]) ([32] @ lit ''eggs'' @ [10])"
  have h: "s_user_id sess_alice = Some 1" "task_get db0 1 = Some task1" "t_user_id task1 = 1"
    "\<not> commit_fails env0"
    by (simp_all add: example_defs task_get_def)
  have sp: "list_all isspace [32, 9, 10]"
    by (simp add: isspace_def)
  have se: "strip ([32] @ lit ''eggs'' @ [10]) = lit ''eggs''"
    by (simp add: strip_def lit_def isspace_def)
  have r: "rq_method ?w = POST" "rq_method ?r = POST"
    "form_get ?w ''title'' = [32, 9, 10]"
    "form_get ?r ''title'' = title200 @ [32, 32, 32]"
    "form_get ?r ''description'' = [32] @ lit ''eggs'' @ [10]"
    by (simp_all add: req_task_def req_post_def form_get_def)
  have l: "length title200 = 200" "title200 \<noteq> []" "length (lit ''eggs'') \<le> 200"
    "length (title200 @ [32, 32, 32]) = 203"
    by (simp_all add: title200_def lit_def)
  have u: "utcnow env0 0 = 1000" "utcnow env0 1 = 1001"
    by (simp_all add: env0_def)
  note A = task_fields_stripped [OF h(1), of env0 ?w db0 1 task1]
  note B = task_fields_stripped [OF h(1), of env0 ?r db0 1 task1]
  note A3 = A [THEN conjunct2, THEN conjunct2, THEN conjunct1]
  note A5 = A [THEN conjunct2, THEN conjunct2, THEN conjunct2, THEN conjunct2]
  note B4 = B [THEN conjunct2, THEN conjunct2, THEN conjunct2, THEN conjunct1]
  note B5 = B [THEN conjunct2, THEN conjunct2, THEN conjunct2, THEN conjunct2]
  have A1: "add_task env0 ?w sess_alice db0 =
      reply (Redirect EP_dashboard) sess_alice db0 [(lit ''Task title is required.'', Error)]"
    using A3 sp r by simp
  have A2: "edit_task env0 1 ?w sess_alice db0 =
      reply (Render_edit_task task1) sess_alice db0 [(lit ''Task title is required.'', Error)]"
    using A5 sp r h by simp
  have B1: "o_db (add_task env0 ?r sess_alice db0) =
      insert_task db0 title200 (lit ''eggs'') 1 1000 1001"
    using B4 r l h se strip_title200 u by simp
  have ts: "t_updated_at task1 = 100" "tasks db0 = [task1, task2]" "t_id task1 = 1" "t_id task2 = 2"
    by (simp_all add: example_defs)
  have "o_db (edit_task env0 1 ?r sess_alice db0) =
      update_task db0 1
        (\<lambda>t. t\<lparr>t_title := title200, t_description := lit ''eggs'',
               t_updated_at := edited_updated_at env0 t title200 (lit ''eggs'')\<rparr>)"
    using B5 r l h se strip_title200 by simp
  then have B2: "tasks (o_db (edit_task env0 1 ?r sess_alice db0)) =
      [task1\<lparr>t_title := title200, t_description := lit ''eggs'', t_updated_at := 1000\<rparr>, task2]"
    by (simp add: update_task_def edited_updated_at_def ts u)
  from A1 A2 B1 B2 h sp l show ?thesis by blast
qed

section \<open>Search\<close>






lemma is_substring_iff: "is_substring q s \<longleftrightarrow> (\<exists>k\<le>length s. take (length q) (drop k s) = q)"
proof (induction s)
  case Nil
  then show ?case by auto
next
  case (Cons c cs)
  have "(\<exists>k\<le>length (c # cs). take (length q) (drop k (c # cs)) = q) \<longleftrightarrow>
        take (length q) (c # cs) = q \<or> (\<exists>k\<le>length cs. take (length q) (drop k cs) = q)"
  proof
    assume "\<exists>k\<le>length (c # cs). take (length q) (drop k (c # cs)) = q"
    then obtain k where k: "k \<le> length (c # cs)" "take (length q) (drop k (c # cs)) = q"
      by blast
    show "take (length q) (c # cs) = q \<or> (\<exists>k\<le>length cs. take (length q) (drop k cs) = q)"
    proof (cases k)
      case 0
      with k show ?thesis by simp
    next
      case (Suc j)
      with k have "j \<le> length cs" "take (length q) (drop j cs) = q" by simp_all
      then show ?thesis by blast
    qed
  next
    assume "take (length q) (c # cs) = q \<or> (\<exists>k\<le>length cs. take (length q) (drop k cs) = q)"
    then show "\<exists>k\<le>length (c # cs). take (length q) (drop k (c # cs)) = q"
    proof
      assume "take (length q) (c # cs) = q"
      then have "take (length q) (drop 0 (c # cs)) = q" by simp
      then show ?thesis by blast
    next
      assume "\<exists>k\<le>length cs. take (length q) (drop k cs) = q"
      then obtain j where "j \<le> length cs" "take (length q) (drop j cs) = q" by blast
      then have "Suc j \<le> length (c # cs)" "take (length q) (drop (Suc j) (c # cs)) = q"
        by simp_all
      then show ?thesis by blast
    qed
  qed
  with Cons show ?case by simp
qed

lemma is_substring_append: "is_substring q s \<longleftrightarrow> (\<exists>pre post. s = pre @ q @ post)"
proof
  assume "is_substring q s"
  then obtain k where k: "k \<le> length s" "take (length q) (drop k s) = q"
    by (auto simp: is_substring_iff)
  have "s = take k s @ drop k s" by simp
  also have "drop k s = take (length q) (drop k s) @ drop (length q) (drop k s)"
    by (simp only: append_take_drop_id)
  finally have "s = take k s @ take (length q) (drop k s) @ drop (length q) (drop k s)" .
  with k show "\<exists>pre post. s = pre @ q @ post" by metis
next
  assume "\<exists>pre post. s = pre @ q @ post"
  then obtain pre post where s: "s = pre @ q @ post" by blast
  then have "length pre \<le> length s" "take (length q) (drop (length pre) s) = q"
    by simp_all
  then show "is_substring q s" unfolding is_substring_iff by blast
qed









end
